theory Spec2Isabelle
  imports Complex_Main "HOL-Library.Sublist"
begin

section \<open>Python values used by the demo application\<close>

text \<open>
  Exceptions of the Python run time that the request handler of \<^verbatim>\<open>demo/app.py\<close> can
  raise itself, and \<open>External\<close> for an exception raised inside a collaborator (the
  detector, the serializer, the configuration loader).
\<close>

datatype py_error = ValueError | IndexError | KeyError | TypeError | External string

subsection \<open>\<^verbatim>\<open>str.split(sep)\<close> and \<^verbatim>\<open>sep.join(xs)\<close>\<close>

text \<open>
  \<^verbatim>\<open>text.split(sep)\<close> scans the text from the left. Where the separator starts at the
  current position, the characters collected so far are emitted as a segment and the scan
  continues behind the separator; otherwise the current character is collected. The
  characters collected at the end of the text are the last segment, so the result is never
  empty. \<open>acc\<close> holds the collected characters in reverse.
\<close>

function split_from :: "string \<Rightarrow> string \<Rightarrow> string \<Rightarrow> string list" where
  "split_from sep acc [] = [rev acc]"
| "split_from sep acc (c # cs) =
     (if sep \<noteq> [] \<and> prefix sep (c # cs)
      then rev acc # split_from sep [] (drop (length sep) (c # cs))
      else split_from sep (c # acc) cs)"
  by pat_completeness auto
termination
  by (relation "measure (\<lambda>(sep, acc, s). length s)") auto

text \<open>Python raises \<^verbatim>\<open>ValueError: empty separator\<close> for \<^verbatim>\<open>sep == ""\<close>.\<close>

definition str_split :: "string \<Rightarrow> string \<Rightarrow> py_error + string list" where
  "str_split s sep = (if sep = [] then Inl ValueError else Inr (split_from sep [] s))"

fun str_join :: "string \<Rightarrow> string list \<Rightarrow> string" where
  "str_join sep [] = []"
| "str_join sep [x] = x"
| "str_join sep (x # y # ys) = x @ sep @ str_join sep (y # ys)"

section \<open>Category Normalizer\<close>

text \<open>
  Modelled from the spec: \<^verbatim>\<open>clean_words_or_phrase\<close> is imported from
  \<^verbatim>\<open>detrex.data.datasets\<close>, a module outside \<^verbatim>\<open>demo/app.py\<close>. The spec (4.1):
  cleaning removes leading and trailing whitespace and normalizes punctuation and casing
  artifacts (stray periods, extra spaces) without altering word order. Here: periods are
  dropped, upper-case ASCII letters are lowered, runs of spaces are collapsed and the
  result is stripped.
\<close>

definition lower_char :: "char \<Rightarrow> char" where
  "lower_char c =
     (let n = (of_char c :: nat) in if 65 \<le> n \<and> n \<le> 90 then char_of (n + 32) else c)"

fun collapse_spaces :: "string \<Rightarrow> string" where
  "collapse_spaces (a # b # cs) =
     (if a = CHR '' '' \<and> b = CHR '' '' then collapse_spaces (b # cs)
      else a # collapse_spaces (b # cs))"
| "collapse_spaces cs = cs"

definition str_strip :: "string \<Rightarrow> string" where
  "str_strip s =
     rev (dropWhile (\<lambda>c. c = CHR '' '') (rev (dropWhile (\<lambda>c. c = CHR '' '') s)))"

definition clean_words_or_phrase :: "string \<Rightarrow> string" where
  "clean_words_or_phrase name =
     str_strip (collapse_spaces (map lower_char (filter (\<lambda>c. c \<noteq> CHR ''.'') name)))"

text \<open>
  The first two statements of \<^verbatim>\<open>gradio_predict\<close>:
  \<^verbatim>\<open>category_names = text.split(", ")\<close> and
  \<^verbatim>\<open>category_names = [clean_words_or_phrase(cat_name) for cat_name in category_names]\<close>.
  The cleaning function is a parameter, so that what is proved of the handler holds for
  every cleaning function.
\<close>

definition category_names_of :: "(string \<Rightarrow> string) \<Rightarrow> string \<Rightarrow> py_error + string list" where
  "category_names_of clean txt =
     (case str_split txt '', '' of
        Inl e \<Rightarrow> Inl e
      | Inr segs \<Rightarrow> Inr (map clean segs))"

text \<open>
  Follows the spec's words (section 8), for comparison with \<open>category_names_of\<close>: the
  non-empty cleaned segments of the input, in original order.
\<close>

definition nonempty_cleaned_segments :: "(string \<Rightarrow> string) \<Rightarrow> string \<Rightarrow> string list" where
  "nonempty_cleaned_segments clean txt =
     filter (\<lambda>name. name \<noteq> []) (map clean (split_from '', '' [] txt))"

section \<open>Result records\<close>

text \<open>
  A record of the JSON output is a Python \<^verbatim>\<open>dict\<close> with string keys. The values that
  occur are integers (identifiers, class indices), floats (scores, coordinates), strings
  (category names, mask encodings) and lists of these.
\<close>

datatype jvalue = JInt int | JFloat real | JStr string | JList "jvalue list"

type_synonym json_dict = "string \<rightharpoonup> jvalue"

text \<open>
  \<^verbatim>\<open>xs[i]\<close> on a Python list: a negative index counts from the end, an index out of
  range raises \<^verbatim>\<open>IndexError\<close>.
\<close>

definition list_getitem :: "'a list \<Rightarrow> int \<Rightarrow> py_error + 'a" where
  "list_getitem xs i =
     (if 0 \<le> i \<and> i < int (length xs) then Inr (xs ! nat i)
      else if i < 0 \<and> - int (length xs) \<le> i then Inr (xs ! nat (i + int (length xs)))
      else Inl IndexError)"

text \<open>
  The body of the loop over \<^verbatim>\<open>json_results\<close> in \<^verbatim>\<open>gradio_predict\<close>:
  \<^verbatim>\<open>json_result["category_name"] = category_names[json_result["category_id"]]\<close>, then
  \<^verbatim>\<open>del json_result["image_id"]\<close>. Reading or deleting a missing key raises
  \<^verbatim>\<open>KeyError\<close>, indexing a list with something that is not an integer raises
  \<^verbatim>\<open>TypeError\<close>.
\<close>

definition name_and_strip :: "string list \<Rightarrow> json_dict \<Rightarrow> py_error + json_dict" where
  "name_and_strip category_names json_result =
     (case json_result ''category_id'' of
        None \<Rightarrow> Inl KeyError
      | Some (JInt i) \<Rightarrow>
          (case list_getitem category_names i of
             Inl e \<Rightarrow> Inl e
           | Inr name \<Rightarrow>
               (let named = json_result(''category_name'' \<mapsto> JStr name)
                in case named ''image_id'' of
                     None \<Rightarrow> Inl KeyError
                   | Some _ \<Rightarrow> Inr (named(''image_id'' := None))))
      | Some _ \<Rightarrow> Inl TypeError)"

text \<open>The loop itself: the first exception ends the request, no records are returned.\<close>

fun name_and_strip_all :: "string list \<Rightarrow> json_dict list \<Rightarrow> py_error + json_dict list" where
  "name_and_strip_all category_names [] = Inr []"
| "name_and_strip_all category_names (r # rs) =
     (case name_and_strip category_names r of
        Inl e \<Rightarrow> Inl e
      | Inr r' \<Rightarrow>
          (case name_and_strip_all category_names rs of
             Inl e \<Rightarrow> Inl e
           | Inr rs' \<Rightarrow> Inr (r' # rs')))"

section \<open>The request handler\<close>

text \<open>
  The collaborators of \<^verbatim>\<open>gradio_predict\<close> that are imported from other modules:
  the cleaning function, \<^verbatim>\<open>np.array\<close>, \<^verbatim>\<open>demo.run_on_image\<close>,
  \<^verbatim>\<open>instances_to_coco_json\<close> applied to \<^verbatim>\<open>predictions["instances"].to(demo.cpu_device)\<close>,
  and \<^verbatim>\<open>visualized_output.get_image()[:, :, ::-1]\<close>. Images, prediction sets and
  visualizations are opaque to the handler. The image (\<open>img\<close>, the handler's
  \<^verbatim>\<open>image\<close>) is \<open>None\<close> when none was uploaded. The detector and the serializer
  return or raise; the cleaning of a string and the two array conversions are taken as
  returning, so nothing below is said about a request that ends in one of them.
\<close>

record ('img, 'pred, 'vis) collaborators =
  clean :: "string \<Rightarrow> string"
  np_array :: "'img option \<Rightarrow> 'img"
  run_on_image :: "'img \<Rightarrow> string list \<Rightarrow> real \<Rightarrow> bool \<Rightarrow> py_error + ('pred \<times> 'vis)"
  instances_to_coco_json :: "'pred \<Rightarrow> int \<Rightarrow> py_error + json_dict list"
  get_image_bgr :: "'vis \<Rightarrow> 'img"

definition gradio_predict ::
  "('img, 'pred, 'vis) collaborators \<Rightarrow> 'img option \<Rightarrow> string \<Rightarrow> real \<Rightarrow> bool
     \<Rightarrow> py_error + ('img \<times> json_dict list)" where
  "gradio_predict demo img text score_thr with_segmentation =
     (case category_names_of (clean demo) text of
        Inl e \<Rightarrow> Inl e
      | Inr category_names \<Rightarrow>
          (case run_on_image demo (np_array demo img) category_names score_thr
                  with_segmentation of
             Inl e \<Rightarrow> Inl e
           | Inr (predictions, visualized_output) \<Rightarrow>
               (case instances_to_coco_json demo predictions 0 of
                  Inl e \<Rightarrow> Inl e
                | Inr json_results \<Rightarrow>
                    (case name_and_strip_all category_names json_results of
                       Inl e \<Rightarrow> Inl e
                     | Inr json_results' \<Rightarrow>
                         Inr (get_image_bgr demo visualized_output, json_results')))))"

section \<open>Detector wrapper and serializer\<close>

text \<open>
  One detected instance: a box of four coordinates, a class index into the category list,
  a score, and a mask when segmentation ran.
\<close>

record 'mask prediction =
  box :: "real \<times> real \<times> real \<times> real"
  class_index :: int
  score :: real
  mask :: "'mask option"

text \<open>
  Modelled from the spec: \<^verbatim>\<open>OVDINODemo.run_on_image\<close> is defined in
  \<^verbatim>\<open>demo/predictors.py\<close>, a module outside \<^verbatim>\<open>demo/app.py\<close>. The spec (4.2, 4.3,
  glossary): the detector produces scored predictions for an image and a category list; a
  confidence threshold supplied per call prunes the predictions below it (the threshold is
  the minimum score of a valid prediction) before they are returned; when segmentation is
  requested and its model is available, each kept prediction receives the mask of its box,
  box and score unchanged, and without the model the request for segmentation is inert.
  The network is the parameter \<open>detect\<close>, the segmentation model the parameter
  \<open>refine\<close>.
\<close>

definition run_on_image_spec ::
  "('img \<Rightarrow> string list \<Rightarrow> 'mask prediction list) \<Rightarrow> ('img \<Rightarrow> real \<times> real \<times> real \<times> real \<Rightarrow> 'mask) option
     \<Rightarrow> 'img \<Rightarrow> string list \<Rightarrow> real \<Rightarrow> bool \<Rightarrow> 'mask prediction list" where
  "run_on_image_spec detect refine img category_names confidence_threshold with_segmentation =
     (let kept = filter (\<lambda>p. confidence_threshold \<le> score p) (detect img category_names)
      in case refine of
           Some sam \<Rightarrow>
             if with_segmentation
             then map (\<lambda>p. p\<lparr>mask := Some (sam img (box p))\<rparr>) kept
             else kept
         | None \<Rightarrow> kept)"

text \<open>
  Modelled from the spec: \<^verbatim>\<open>instances_to_coco_json\<close> is imported from
  \<^verbatim>\<open>detectron2.evaluation.coco_evaluation\<close>, a module outside \<^verbatim>\<open>demo/app.py\<close>.
  The spec (2, 3, 4.5): one plain record per detected instance, in order, with the class
  index, the score, the box, the optional mask encoding and the identifier tied to the
  request. The mask encoding is the parameter \<open>encode\<close>.
\<close>

definition instance_to_record :: "('mask \<Rightarrow> jvalue) \<Rightarrow> int \<Rightarrow> 'mask prediction \<Rightarrow> json_dict" where
  "instance_to_record encode img_id p =
     (let (x0, y0, x1, y1) = box p;
          result = [''image_id'' \<mapsto> JInt img_id,
                    ''category_id'' \<mapsto> JInt (class_index p),
                    ''bbox'' \<mapsto> JList [JFloat x0, JFloat y0, JFloat x1, JFloat y1],
                    ''score'' \<mapsto> JFloat (score p)]
      in case mask p of
           None \<Rightarrow> result
         | Some m \<Rightarrow> result(''segmentation'' \<mapsto> encode m))"

definition instances_to_coco_json_spec ::
  "('mask \<Rightarrow> jvalue) \<Rightarrow> 'mask prediction list \<Rightarrow> int \<Rightarrow> json_dict list" where
  "instances_to_coco_json_spec encode instances img_id =
     map (instance_to_record encode img_id) instances"

section \<open>Startup\<close>

text \<open>The command line of \<^verbatim>\<open>get_parser\<close>, with its defaults.\<close>

record args =
  config_file :: string
  sam_config_file :: "string option"
  sam_init_checkpoint :: "string option"
  min_size_test :: int
  max_size_test :: real
  img_format :: string
  metadata_dataset :: string
  confidence_threshold :: real
  opts :: "string list option"

definition default_args :: args where
  "default_args =
     \<lparr>config_file = ''projects/dino/configs/dino_r50_4scale_12ep.py'',
      sam_config_file = None,
      sam_init_checkpoint = None,
      min_size_test = 800,
      max_size_test = 1333,
      img_format = ''RGB'',
      metadata_dataset = ''coco_2017_val'',
      confidence_threshold = 1 / 2,
      opts = None\<rparr>"

text \<open>
  What the script calls in other libraries while it starts, each call either returning or
  raising: \<^verbatim>\<open>LazyConfig.load\<close>, \<^verbatim>\<open>LazyConfig.apply_overrides\<close>,
  \<^verbatim>\<open>instantiate(cfg.model)\<close>, \<^verbatim>\<open>model.to(cfg.train.device)\<close>,
  \<^verbatim>\<open>DetectionCheckpointer(model).load(cfg.train.init_checkpoint)\<close>,
  \<^verbatim>\<open>model.eval()\<close>, \<^verbatim>\<open>SAM2ImagePredictor(build_sam2(config, checkpoint, device="cuda"))\<close>
  and \<^verbatim>\<open>MetadataCatalog.get(name).thing_classes\<close>; and whether the import of
  \<^verbatim>\<open>sam2\<close> at the top of the module succeeded. Configurations, models and
  segmentation predictors are opaque handles.
\<close>

record ('cfg, 'model, 'sam) platform =
  SAM2_AVAILABLE :: bool
  lazyconfig_load :: "string \<Rightarrow> py_error + 'cfg"
  lazyconfig_apply_overrides :: "'cfg \<Rightarrow> string list option \<Rightarrow> py_error + 'cfg"
  instantiate_model :: "'cfg \<Rightarrow> py_error + 'model"
  model_to_device :: "'model \<Rightarrow> 'cfg \<Rightarrow> py_error + 'model"
  checkpointer_load :: "'model \<Rightarrow> 'cfg \<Rightarrow> py_error + 'model"
  model_eval :: "'model \<Rightarrow> py_error + 'model"
  build_sam2_predictor :: "string \<Rightarrow> string option \<Rightarrow> py_error + 'sam"
  thing_classes :: "string \<Rightarrow> py_error + string list"

text \<open>\<^verbatim>\<open>setup(args)\<close>\<close>

definition setup_cfg :: "('cfg, 'model, 'sam) platform \<Rightarrow> args \<Rightarrow> py_error + 'cfg" where
  "setup_cfg plat a =
     (case lazyconfig_load plat (config_file a) of
        Inl e \<Rightarrow> Inl e
      | Inr cfg \<Rightarrow> lazyconfig_apply_overrides plat cfg (opts a))"

text \<open>
  From \<^verbatim>\<open>cfg = setup(args)\<close> to \<^verbatim>\<open>model.eval()\<close>: the detection model is
  configured, built, moved to its device, given its checkpoint and put in evaluation mode.
  An exception of any step ends the script.
\<close>

definition load_detection_model :: "('cfg, 'model, 'sam) platform \<Rightarrow> args \<Rightarrow> py_error + 'model" where
  "load_detection_model plat a =
     (case setup_cfg plat a of
        Inl e \<Rightarrow> Inl e
      | Inr cfg \<Rightarrow>
          (case instantiate_model plat cfg of
             Inl e \<Rightarrow> Inl e
           | Inr model \<Rightarrow>
               (case model_to_device plat model cfg of
                  Inl e \<Rightarrow> Inl e
                | Inr model1 \<Rightarrow>
                    (case checkpointer_load plat model1 cfg of
                       Inl e \<Rightarrow> Inl e
                     | Inr model2 \<Rightarrow> model_eval plat model2))))"

text \<open>
  \<^verbatim>\<open>if args.sam_config_file is not None and SAM2_AVAILABLE: ... else: sam_predictor = None\<close>
\<close>

definition load_sam_predictor :: "('cfg, 'model, 'sam) platform \<Rightarrow> args \<Rightarrow> py_error + 'sam option" where
  "load_sam_predictor plat a =
     (case sam_config_file a of
        None \<Rightarrow> Inr None
      | Some sam_cfg \<Rightarrow>
          if SAM2_AVAILABLE plat
          then (case build_sam2_predictor plat sam_cfg (sam_init_checkpoint a) of
                  Inl e \<Rightarrow> Inl e
                | Inr sam \<Rightarrow> Inr (Some sam))
          else Inr None)"

text \<open>The demo object, represented by the arguments \<^verbatim>\<open>OVDINODemo\<close> is constructed from.\<close>

record ('model, 'sam) ovdino_demo =
  demo_model :: 'model
  sam_predictor :: "'sam option"
  demo_min_size_test :: int
  demo_max_size_test :: real
  demo_img_format :: string
  demo_metadata_dataset :: string

section \<open>The form\<close>

datatype component =
  Image | Input_text | Score_thr | With_segmentation | Output_image | Json_results

text \<open>
  What a handler hands to an output of the form, or what a component of the form shows:
  \<^verbatim>\<open>None\<close>, a string, a number, a boolean, an image, a list of records, or a component
  object of the form itself.
\<close>

datatype 'img gr_value =
  GNone | GStr string | GNum real | GBool bool | GImage 'img | GJson "json_dict list"
  | GComponent component

text \<open>The keyword arguments given to the constructors of the components, where present.\<close>

record 'img constructor_args =
  label :: "string option"
  init_value :: "'img gr_value option"
  visible :: "bool option"
  minimum :: "real option"
  maximum :: "real option"
  step :: "real option"

definition no_args :: "'img constructor_args" where
  "no_args = \<lparr>label = None, init_value = None, visible = None, minimum = None,
     maximum = None, step = None\<rparr>"

fun blocks :: "bool \<Rightarrow> string \<Rightarrow> component \<Rightarrow> 'img constructor_args" where
  "blocks sam2_available coco_categories Image = no_args\<lparr>label := Some ''input image''\<rparr>"
| "blocks sam2_available coco_categories Input_text =
     no_args\<lparr>label := Some ''Enter the classes to be detected, separated by comma'',
             init_value := Some (GStr coco_categories)\<rparr>"
| "blocks sam2_available coco_categories Score_thr =
     no_args\<lparr>label := Some ''Score Threshold'', init_value := Some (GNum (1 / 2)),
             minimum := Some 0, maximum := Some 1, step := Some (1 / 100)\<rparr>"
| "blocks sam2_available coco_categories With_segmentation =
     no_args\<lparr>label := Some ''With Segmentation (OV-SAM = OV-DINO + SAM2)'',
             visible := Some sam2_available\<rparr>"
| "blocks sam2_available coco_categories Output_image = no_args\<lparr>label := Some ''output image''\<rparr>"
| "blocks sam2_available coco_categories Json_results = no_args\<lparr>label := Some ''JSON Results''\<rparr>"

text \<open>
  The script from \<^verbatim>\<open>cfg = setup(args)\<close> to \<^verbatim>\<open>app.launch(show_error=True)\<close>.
  \<open>Inr\<close> is the state in which \<^verbatim>\<open>app.launch\<close> is called and requests are accepted:
  the demo object the handler closes over, the default category text and the components of
  the form. \<open>Inl\<close> is the exception that ended the script before.
\<close>

record ('img, 'model, 'sam) app =
  app_demo :: "('model, 'sam) ovdino_demo"
  coco_categories :: string
  app_blocks :: "component \<Rightarrow> 'img constructor_args"

definition main :: "('cfg, 'model, 'sam) platform \<Rightarrow> args \<Rightarrow> py_error + ('img, 'model, 'sam) app" where
  "main plat a =
     (case load_detection_model plat a of
        Inl e \<Rightarrow> Inl e
      | Inr model \<Rightarrow>
          (case load_sam_predictor plat a of
             Inl e \<Rightarrow> Inl e
           | Inr sam \<Rightarrow>
               (case thing_classes plat (metadata_dataset a) of
                  Inl e \<Rightarrow> Inl e
                | Inr classes \<Rightarrow>
                    Inr \<lparr>app_demo =
                           \<lparr>demo_model = model,
                            sam_predictor = sam,
                            demo_min_size_test = min_size_test a,
                            demo_max_size_test = max_size_test a,
                            demo_img_format = img_format a,
                            demo_metadata_dataset = metadata_dataset a\<rparr>,
                         coco_categories = str_join '', '' classes,
                         app_blocks = blocks (SAM2_AVAILABLE plat) (str_join '', '' classes)\<rparr>)))"

section \<open>Events of the form\<close>

text \<open>
  The state of the form: what each component shows, and how many times the detector has
  been run for it.
\<close>

record 'img ui_state =
  shown :: "component \<Rightarrow> 'img gr_value"
  inference_calls :: nat

text \<open>
  A component shows the \<^verbatim>\<open>value\<close> it was constructed with, and without one the default
  of its class: an unticked checkbox, no image, no records.
\<close>

fun class_default :: "component \<Rightarrow> 'img gr_value" where
  "class_default With_segmentation = GBool False"
| "class_default c = GNone"

definition startup_state :: "(component \<Rightarrow> 'img constructor_args) \<Rightarrow> 'img ui_state" where
  "startup_state comps =
     \<lparr>shown = (\<lambda>c. case init_value (comps c) of Some v \<Rightarrow> v | None \<Rightarrow> class_default c),
      inference_calls = 0\<rparr>"

text \<open>
  \<^verbatim>\<open>clear.click(lambda: [None, coco_categories, 0.5, json_results, with_segmentation],
  inputs=None, outputs=[image, input_text, score_thr, json_results, with_segmentation])\<close>:
  the function returns, for the last two outputs, the component objects themselves.
\<close>

definition clear_fn :: "string \<Rightarrow> 'img gr_value list" where
  "clear_fn coco = [GNone, GStr coco, GNum (1 / 2), GComponent Json_results,
     GComponent With_segmentation]"

definition clear_outputs :: "component list" where
  "clear_outputs = [Image, Input_text, Score_thr, Json_results, With_segmentation]"

text \<open>
  How the form takes a returned value for an output. A plain value becomes what the output
  shows. A component object is taken as an update of the properties its constructor was
  given: what the output shows changes only if a \<^verbatim>\<open>value\<close> is among them.
\<close>

definition set_output ::
  "(component \<Rightarrow> 'img constructor_args) \<Rightarrow> component \<times> 'img gr_value
     \<Rightarrow> (component \<Rightarrow> 'img gr_value) \<Rightarrow> (component \<Rightarrow> 'img gr_value)" where
  "set_output comps ov cur =
     (case snd ov of
        GComponent c \<Rightarrow>
          (case init_value (comps c) of
             None \<Rightarrow> cur
           | Some v \<Rightarrow> cur(fst ov := v))
      | v \<Rightarrow> cur(fst ov := v))"

definition clear_click :: "('img, 'model, 'sam) app \<Rightarrow> 'img ui_state \<Rightarrow> 'img ui_state" where
  "clear_click ap st =
     st\<lparr>shown := fold (set_output (app_blocks ap))
                     (zip clear_outputs (clear_fn (coco_categories ap))) (shown st)\<rparr>"

text \<open>
  \<^verbatim>\<open>submit.click(fn=gradio_predict, inputs=[image, input_text, score_thr, with_segmentation],
  outputs=[output_image, json_results])\<close>: the handler runs on what the inputs show; when
  it raises, the error is displayed and the outputs keep what they show.
\<close>

definition submit_click ::
  "('img, 'pred, 'vis) collaborators \<Rightarrow> 'img ui_state \<Rightarrow> 'img ui_state" where
  "submit_click demo st =
     (case (shown st Input_text, shown st Score_thr, shown st With_segmentation) of
        (GStr text, GNum thr, GBool seg) \<Rightarrow>
          (let st' = st\<lparr>inference_calls := inference_calls st + 1\<rparr>
           in case gradio_predict demo
                     (case shown st Image of GImage i \<Rightarrow> Some i | _ \<Rightarrow> None) text thr seg of
                Inl e \<Rightarrow> st'
              | Inr (out, records) \<Rightarrow>
                  st'\<lparr>shown := (shown st')(Output_image := GImage out,
                                           Json_results := GJson records)\<rparr>)
      | _ \<Rightarrow> st)"

section \<open>An example installation\<close>

text \<open>
  The example of the spec (section 8): an image with a bus and a person, the category text
  \<^verbatim>\<open>person, bus, bicycle\<close>. The detector of the example scores the person 0.9, the bus
  0.8 and a bicycle 0.3, whenever the category list is long enough for the class index.
  All library calls of the startup succeed in \<open>example_platform\<close>, where \<^verbatim>\<open>sam2\<close> is
  installed; in \<open>broken_platform\<close> the checkpoint cannot be read.
\<close>

definition example_detect :: "unit \<Rightarrow> string list \<Rightarrow> unit prediction list" where
  "example_detect img category_names =
     filter (\<lambda>p. class_index p < int (length category_names))
       [\<lparr>box = (12, 40, 96, 230), class_index = 0, score = 9 / 10, mask = None\<rparr>,
        \<lparr>box = (120, 30, 400, 260), class_index = 1, score = 8 / 10, mask = None\<rparr>,
        \<lparr>box = (300, 200, 340, 250), class_index = 2, score = 3 / 10, mask = None\<rparr>]"

definition example_demo :: "(unit, unit prediction list, unit) collaborators" where
  "example_demo =
     \<lparr>clean = clean_words_or_phrase,
      np_array = (\<lambda>img. ()),
      run_on_image = (\<lambda>img names thr seg.
        Inr (run_on_image_spec example_detect None img names thr seg, ())),
      instances_to_coco_json = (\<lambda>instances img_id.
        Inr (instances_to_coco_json_spec (\<lambda>m. JStr []) instances img_id)),
      get_image_bgr = (\<lambda>vis. ())\<rparr>"

definition example_platform :: "(unit, unit, unit) platform" where
  "example_platform =
     \<lparr>SAM2_AVAILABLE = True,
      lazyconfig_load = (\<lambda>file. Inr ()),
      lazyconfig_apply_overrides = (\<lambda>cfg overrides. Inr ()),
      instantiate_model = (\<lambda>cfg. Inr ()),
      model_to_device = (\<lambda>model cfg. Inr ()),
      checkpointer_load = (\<lambda>model cfg. Inr ()),
      model_eval = (\<lambda>model. Inr ()),
      build_sam2_predictor = (\<lambda>cfg ckpt. Inr ()),
      thing_classes = (\<lambda>name. Inr [''person'', ''bus'', ''bicycle''])\<rparr>"

definition broken_platform :: "(unit, unit, unit) platform" where
  "broken_platform =
     example_platform\<lparr>checkpointer_load := (\<lambda>model cfg. Inl (External ''checkpoint not found''))\<rparr>"

text \<open>
  The form of the example installation after a request with segmentation ticked: records
  are displayed, and the detector has run once.
\<close>

definition after_request :: "unit ui_state" where
  "after_request =
     \<lparr>shown = (\<lambda>c. GNone)
        (Input_text := GStr ''person, bus'', Score_thr := GNum (3 / 10),
         With_segmentation := GBool True, Image := GImage (), Output_image := GImage (),
         Json_results := GJson [[''category_id'' \<mapsto> JInt 0]]),
      inference_calls = 1\<rparr>"

section \<open>Properties of splitting and joining\<close>

lemma split_from_ne: "split_from sep acc s \<noteq> []"
  by (induction sep acc s rule: split_from.induct) auto

lemma str_join_Cons: "xs \<noteq> [] \<Longrightarrow> str_join sep (x # xs) = x @ sep @ str_join sep xs"
  by (cases xs) auto

lemma split_from_join: "str_join sep (split_from sep acc s) = rev acc @ s"
proof (induction sep acc s rule: split_from.induct)
  case (1 sep acc)
  then show ?case by simp
next
  case (2 sep acc c cs)
  show ?case
  proof (cases "sep \<noteq> [] \<and> prefix sep (c # cs)")
    case True
    then have sp: "split_from sep acc (c # cs) = rev acc # split_from sep [] (drop (length sep) (c # cs))"
      by simp
    from True have pd: "sep @ drop (length sep) (c # cs) = c # cs"
      by (metis append_eq_conv_conj prefix_def)
    from True 2(1) have "str_join sep (split_from sep [] (drop (length sep) (c # cs))) = drop (length sep) (c # cs)"
      by simp
    then have "str_join sep (split_from sep acc (c # cs)) = rev acc @ sep @ drop (length sep) (c # cs)"
      unfolding sp by (simp only: str_join_Cons [OF split_from_ne])
    with pd show ?thesis by simp
  next
    case False
    with 2(2) show ?thesis by auto
  qed
qed




lemma category_names_of_eq:
  "category_names_of cl txt = Inr (map cl (split_from '', '' [] txt))"
  by (simp add: category_names_of_def str_split_def)

lemma length_filter_eq_iff: "length (filter P xs) = length xs \<longleftrightarrow> (\<forall>x \<in> set xs. P x)"
proof (induction xs)
  case Nil
  then show ?case by simp
next
  case (Cons x xs)
  have "length (filter P xs) \<le> length xs" by (rule length_filter_le)
  then have "length (filter P xs) \<noteq> Suc (length xs)" by linarith
  with Cons show ?case by simp
qed

lemma length_nonempty_iff:
  "length ys = length (filter (\<lambda>name. name \<noteq> []) ys) \<longleftrightarrow> [] \<notin> set ys"
proof -
  have "length (filter (\<lambda>name. name \<noteq> []) ys) = length ys \<longleftrightarrow> (\<forall>y \<in> set ys. y \<noteq> [])"
    by (rule length_filter_eq_iff)
  also have "\<dots> \<longleftrightarrow> [] \<notin> set ys" by blast
  finally show ?thesis by (simp add: eq_commute)
qed


section \<open>Properties of the record loop and the handler\<close>

lemma name_and_strip_Inr:
  assumes "name_and_strip names r = Inr r'"
  shows "\<exists>i name. r ''category_id'' = Some (JInt i) \<and> list_getitem names i = Inr name
           \<and> r' = (r(''category_name'' \<mapsto> JStr name))(''image_id'' := None)"
  using assms
  by (auto simp: name_and_strip_def Let_def split: option.splits jvalue.splits sum.splits)

lemma name_and_strip_all_length:
  "name_and_strip_all names rs = Inr rs' \<Longrightarrow> length rs' = length rs"
proof (induction rs arbitrary: rs')
  case Nil
  then show ?case by simp
next
  case (Cons r rs)
  then show ?case by (auto split: sum.splits)
qed

lemma name_and_strip_all_member:
  "name_and_strip_all names rs = Inr rs' \<Longrightarrow> r' \<in> set rs' \<Longrightarrow>
     \<exists>r \<in> set rs. name_and_strip names r = Inr r'"
proof (induction rs arbitrary: rs')
  case Nil
  then show ?case by simp
next
  case (Cons r rs)
  from Cons.prems(1) obtain q qs where q: "name_and_strip names r = Inr q"
    and qs: "name_and_strip_all names rs = Inr qs" and rs': "rs' = q # qs"
    by (auto split: sum.splits)
  from Cons.prems(2) rs' consider "r' = q" | "r' \<in> set qs" by auto
  then show ?case
  proof cases
    case 1
    with q show ?thesis by simp
  next
    case 2
    from Cons.IH [OF qs 2] show ?thesis by simp
  qed
qed

lemma list_getitem_Inr:
  assumes "list_getitem xs i = Inr x"
  shows "- int (length xs) \<le> i \<and> i < int (length xs)
         \<and> x = xs ! nat (if i < 0 then i + int (length xs) else i)"
  using assms by (auto simp: list_getitem_def split: if_splits)

lemma gradio_predict_Inr:
  assumes "gradio_predict demo img txt thr seg = Inr (out, records)"
  shows "\<exists>p v raw.
           run_on_image demo (np_array demo img) (map (clean demo) (split_from '', '' [] txt)) thr seg
             = Inr (p, v)
           \<and> instances_to_coco_json demo p 0 = Inr raw
           \<and> name_and_strip_all (map (clean demo) (split_from '', '' [] txt)) raw = Inr records
           \<and> out = get_image_bgr demo v"
  using assms
  by (auto simp: gradio_predict_def category_names_of_eq split: sum.splits prod.splits)

section \<open>The example request, evaluated\<close>

lemma example_names:
  "category_names_of clean_words_or_phrase ''person, bus, bicycle''
     = Inr [''person'', ''bus'', ''bicycle'']"
  by code_simp


lemma example_request:
  "\<exists>records. gradio_predict example_demo None ''person, bus, bicycle'' (1 / 2) False
       = Inr ((), records)
     \<and> length records = 2 \<and> (records ! 1) ''category_id'' = Some (JInt 1)"
  by (simp add: gradio_predict_def example_demo_def example_names run_on_image_spec_def
      example_detect_def instances_to_coco_json_spec_def instance_to_record_def
      name_and_strip_def list_getitem_def)



section \<open>Properties of the startup and of the clear action\<close>

lemma main_Inr:
  assumes "main plat a = Inr ap"
  shows "\<exists>model sam classes.
           load_detection_model plat a = Inr model
           \<and> load_sam_predictor plat a = Inr sam
           \<and> thing_classes plat (metadata_dataset a) = Inr classes
           \<and> demo_model (app_demo ap) = model
           \<and> sam_predictor (app_demo ap) = sam
           \<and> coco_categories ap = str_join '', '' classes
           \<and> app_blocks ap = blocks (SAM2_AVAILABLE plat) (str_join '', '' classes)"
  using assms by (auto simp: main_def split: sum.splits)

lemma load_detection_model_Inr:
  assumes "load_detection_model plat a = Inr m"
  shows "\<exists>cfg m0 m1 m2. setup_cfg plat a = Inr cfg \<and> instantiate_model plat cfg = Inr m0
           \<and> model_to_device plat m0 cfg = Inr m1 \<and> checkpointer_load plat m1 cfg = Inr m2
           \<and> model_eval plat m2 = Inr m"
  using assms by (auto simp: load_detection_model_def split: sum.splits)

lemma main_example:
  "\<exists>ap. (main example_platform default_args :: py_error + (unit, unit, unit) app) = Inr ap"
  by (simp add: main_def load_detection_model_def setup_cfg_def load_sam_predictor_def
      example_platform_def default_args_def)

lemma load_broken:
  "load_detection_model broken_platform default_args = Inl (External ''checkpoint not found'')"
  by (simp add: load_detection_model_def setup_cfg_def broken_platform_def
      example_platform_def default_args_def)

lemma clear_click_shown:
  assumes "app_blocks ap = blocks s coco"
  shows "shown (clear_click ap st) =
           (shown st)(Image := GNone, Input_text := GStr (coco_categories ap),
                      Score_thr := GNum (1 / 2))"
  by (simp add: clear_click_def clear_outputs_def clear_fn_def set_output_def assms no_args_def)

lemma clear_click_calls: "inference_calls (clear_click ap st) = inference_calls st"
  by (simp add: clear_click_def)

section \<open>The claims\<close>



text \<open>
  C1 as stated fails: a segment that is empty after cleaning is kept, so the list is longer
  than the non-empty cleaned segments.
\<close>

theorem category_names_counterexample:
  "category_names_of clean_words_or_phrase ''person, , bus'' = Inr [''person'', [], ''bus'']
   \<and> length [''person'', [], ''bus'']
       \<noteq> length (nonempty_cleaned_segments clean_words_or_phrase ''person, , bus'')"
  by code_simp

text \<open>
  C1, amended. The category names are the cleaned segments of \<^verbatim>\<open>text.split(", ")\<close>,
  all of them and in the order of the text (joined with comma-space the segments give the
  text back); the non-empty ones among them are the non-empty cleaned segments, and the
  two lengths agree exactly when no segment is empty after cleaning.
\<close>

theorem category_names_all_segments:
  "category_names_of cl txt = Inr (map cl (split_from '', '' [] txt))
   \<and> str_join '', '' (split_from '', '' [] txt) = txt
   \<and> filter (\<lambda>name. name \<noteq> []) (map cl (split_from '', '' [] txt))
       = nonempty_cleaned_segments cl txt
   \<and> (length (map cl (split_from '', '' [] txt)) = length (nonempty_cleaned_segments cl txt)
        \<longleftrightarrow> [] \<notin> set (map cl (split_from '', '' [] txt)))"
proof (intro conjI)
  show "category_names_of cl txt = Inr (map cl (split_from '', '' [] txt))"
    by (rule category_names_of_eq)
  show "str_join '', '' (split_from '', '' [] txt) = txt"
    by (simp add: split_from_join)
  show "filter (\<lambda>name. name \<noteq> []) (map cl (split_from '', '' [] txt))
       = nonempty_cleaned_segments cl txt"
    by (simp add: nonempty_cleaned_segments_def)
  show "length (map cl (split_from '', '' [] txt)) = length (nonempty_cleaned_segments cl txt)
        \<longleftrightarrow> [] \<notin> set (map cl (split_from '', '' [] txt))"
    unfolding nonempty_cleaned_segments_def by (rule length_nonempty_iff)
qed

text \<open>
  C4. Every record that the handler returns has no \<^verbatim>\<open>image_id\<close>: it is a record of
  the serializer with that key deleted and \<^verbatim>\<open>category_name\<close> added, every other
  key as the serializer gave it.
\<close>

theorem records_carry_no_image_id:
  assumes "gradio_predict demo img txt thr seg = Inr (out, records)" and "r \<in> set records"
  shows "r ''image_id'' = None
         \<and> (\<exists>p v raw r0.
               run_on_image demo (np_array demo img)
                   (map (clean demo) (split_from '', '' [] txt)) thr seg = Inr (p, v)
               \<and> instances_to_coco_json demo p 0 = Inr raw \<and> length records = length raw
               \<and> r0 \<in> set raw
               \<and> dom r = insert ''category_name'' (dom r0 - {''image_id''})
               \<and> (\<forall>k. k \<noteq> ''image_id'' \<and> k \<noteq> ''category_name'' \<longrightarrow> r k = r0 k))"
proof -
  from assms(1) obtain p v raw where
    run: "run_on_image demo (np_array demo img) (map (clean demo) (split_from '', '' [] txt)) thr seg
            = Inr (p, v)"
    and ser: "instances_to_coco_json demo p 0 = Inr raw"
    and loop: "name_and_strip_all (map (clean demo) (split_from '', '' [] txt)) raw = Inr records"
    using gradio_predict_Inr [OF assms(1)] by (elim exE conjE)
  from loop have len: "length records = length raw"
    by (simp add: name_and_strip_all_length)
  from loop assms(2) obtain r0 where r0: "r0 \<in> set raw"
    and st: "name_and_strip (map (clean demo) (split_from '', '' [] txt)) r0 = Inr r"
    using name_and_strip_all_member by blast
  from st obtain name where r: "r = (r0(''category_name'' \<mapsto> JStr name))(''image_id'' := None)"
    using name_and_strip_Inr by blast
  have a: "r ''image_id'' = None" by (simp add: r)
  have b: "dom r = insert ''category_name'' (dom r0 - {''image_id''})"
    unfolding r by auto
  have c: "\<forall>k. k \<noteq> ''image_id'' \<and> k \<noteq> ''category_name'' \<longrightarrow> r k = r0 k"
    by (simp add: r)
  from a b c run ser len r0 show ?thesis by blast
qed

text \<open>
  C4 at the example request: two records, the second without \<^verbatim>\<open>image_id\<close> and with a
  \<^verbatim>\<open>category_name\<close>.
\<close>

theorem records_carry_no_image_id_witness:
  "\<exists>records. gradio_predict example_demo None ''person, bus, bicycle'' (1 / 2) False
       = Inr ((), records)
     \<and> length records = 2 \<and> (records ! 1) ''image_id'' = None
     \<and> ''category_name'' \<in> dom (records ! 1)"
proof -
  from example_request obtain records where
    a: "gradio_predict example_demo None ''person, bus, bicycle'' (1 / 2) False = Inr ((), records)"
    and len: "length records = 2"
    by blast
  from len have m: "records ! 1 \<in> set records" by simp
  from records_carry_no_image_id [OF a m]
  have "(records ! 1) ''image_id'' = None \<and> ''category_name'' \<in> dom (records ! 1)"
    by blast
  with a len show ?thesis by blast
qed

text \<open>
  C5. In every returned record, \<^verbatim>\<open>category_name\<close> is the entry of the category
  list of the request at the record's \<^verbatim>\<open>category_id\<close>, read as Python reads
  \<^verbatim>\<open>category_names[i]\<close>; for an index that is not negative this is entry \<open>i\<close>.
\<close>

theorem category_name_at_class_index:
  assumes "gradio_predict demo img txt thr seg = Inr (out, records)"
    and "category_names_of (clean demo) txt = Inr names"
    and "r \<in> set records"
  shows "\<exists>i name. r ''category_id'' = Some (JInt i) \<and> r ''category_name'' = Some (JStr name)
           \<and> list_getitem names i = Inr name
           \<and> (0 \<le> i \<longrightarrow> nat i < length names \<and> name = names ! nat i)"
proof -
  from assms(2) have names: "names = map (clean demo) (split_from '', '' [] txt)"
    by (simp add: category_names_of_eq)
  from gradio_predict_Inr [OF assms(1)] obtain raw where
    loop: "name_and_strip_all names raw = Inr records"
    unfolding names by (elim exE conjE)
  from loop assms(3) obtain r0 where st: "name_and_strip names r0 = Inr r"
    using name_and_strip_all_member by blast
  from st obtain i name where i: "r0 ''category_id'' = Some (JInt i)"
    and g: "list_getitem names i = Inr name"
    and r: "r = (r0(''category_name'' \<mapsto> JStr name))(''image_id'' := None)"
    using name_and_strip_Inr by blast
  have "r ''category_id'' = Some (JInt i)" by (simp add: r i)
  moreover have "r ''category_name'' = Some (JStr name)" by (simp add: r)
  moreover from g have "0 \<le> i \<longrightarrow> nat i < length names \<and> name = names ! nat i"
    using list_getitem_Inr [of names i name] by auto
  ultimately show ?thesis using g by blast
qed

text \<open>
  C5 at the example request: the record of class 1 is named \<^verbatim>\<open>bus\<close>.
\<close>

theorem category_name_at_class_index_witness:
  "category_names_of (clean example_demo) ''person, bus, bicycle''
     = Inr [''person'', ''bus'', ''bicycle'']
   \<and> (\<exists>records. gradio_predict example_demo None ''person, bus, bicycle'' (1 / 2) False
          = Inr ((), records)
        \<and> length records = 2 \<and> (records ! 1) ''category_id'' = Some (JInt 1)
        \<and> (records ! 1) ''category_name'' = Some (JStr ''bus''))"
proof -
  have names: "category_names_of (clean example_demo) ''person, bus, bicycle''
     = Inr [''person'', ''bus'', ''bicycle'']"
    using example_names by (simp add: example_demo_def)
  from example_request obtain records where
    a: "gradio_predict example_demo None ''person, bus, bicycle'' (1 / 2) False = Inr ((), records)"
    and len: "length records = 2"
    and cid: "(records ! 1) ''category_id'' = Some (JInt 1)"
    by blast
  from len have m: "records ! 1 \<in> set records" by simp
  from category_name_at_class_index [OF a names m] cid
  have "(records ! 1) ''category_name'' = Some (JStr ''bus'')"
    by auto
  with names a len cid show ?thesis by blast
qed




text \<open>
  C7. For the same image, category list and segmentation flag, a lower confidence threshold
  never returns fewer predictions.
\<close>

theorem lower_threshold_keeps_more:
  assumes "t1 \<le> t2"
  shows "length (run_on_image_spec detect refine img names t2 seg)
           \<le> length (run_on_image_spec detect refine img names t1 seg)"
proof -
  have "filter (\<lambda>p. t2 \<le> score p) (detect img names)
          = filter (\<lambda>p. t2 \<le> score p) (filter (\<lambda>p. t1 \<le> score p) (detect img names))"
    using assms by (auto intro: filter_cong)
  then have "length (filter (\<lambda>p. t2 \<le> score p) (detect img names))
               \<le> length (filter (\<lambda>p. t1 \<le> score p) (detect img names))"
    by (metis length_filter_le)
  then show ?thesis
    by (simp add: run_on_image_spec_def Let_def split: option.splits)
qed

text \<open>
  C7 at the example image with the thresholds 0.3 and 0.5.
\<close>

theorem lower_threshold_keeps_more_witness:
  "(3 / 10 :: real) \<le> 1 / 2
   \<and> length (run_on_image_spec example_detect None () [''person'', ''bus'', ''bicycle''] (1 / 2) False)
       \<le> length (run_on_image_spec example_detect None () [''person'', ''bus'', ''bicycle''] (3 / 10) False)"
proof -
  have h: "(3 / 10 :: real) \<le> 1 / 2" by simp
  have "length (run_on_image_spec example_detect None () [''person'', ''bus'', ''bicycle''] (1 / 2) False)
       \<le> length (run_on_image_spec example_detect None () [''person'', ''bus'', ''bicycle''] (3 / 10) False)"
    by (rule lower_threshold_keeps_more [OF h])
  with h show ?thesis by (rule conjI)
qed

text \<open>
  C8. When loading the detection model raises, the script ends with that exception and
  \<^verbatim>\<open>app.launch\<close> is not reached; when it is reached, every step of loading has
  succeeded and the demo object holds the loaded model.
\<close>

theorem model_loaded_before_launch:
  "(load_detection_model plat a = Inl e \<longrightarrow>
      (main plat a :: py_error + ('img, 'model, 'sam) app) = Inl e)
   \<and> (main plat a = Inr (ap :: ('img, 'model, 'sam) app) \<longrightarrow>
        (\<exists>cfg m0 m1 m2. setup_cfg plat a = Inr cfg \<and> instantiate_model plat cfg = Inr m0
           \<and> model_to_device plat m0 cfg = Inr m1 \<and> checkpointer_load plat m1 cfg = Inr m2
           \<and> model_eval plat m2 = Inr (demo_model (app_demo ap))))"
proof (intro conjI impI)
  assume "load_detection_model plat a = Inl e"
  then show "(main plat a :: py_error + ('img, 'model, 'sam) app) = Inl e"
    by (simp add: main_def)
next
  assume "main plat a = Inr ap"
  then have "load_detection_model plat a = Inr (demo_model (app_demo ap))"
    using main_Inr [of plat a ap] by auto
  then show "\<exists>cfg m0 m1 m2. setup_cfg plat a = Inr cfg \<and> instantiate_model plat cfg = Inr m0
           \<and> model_to_device plat m0 cfg = Inr m1 \<and> checkpointer_load plat m1 cfg = Inr m2
           \<and> model_eval plat m2 = Inr (demo_model (app_demo ap))"
    by (rule load_detection_model_Inr)
qed

text \<open>
  C8 with an unreadable checkpoint, and with a working installation.
\<close>

theorem model_loaded_before_launch_witness:
  "(main broken_platform default_args :: py_error + (unit, unit, unit) app)
     = Inl (External ''checkpoint not found'')
   \<and> (\<exists>ap. (main example_platform default_args :: py_error + (unit, unit, unit) app) = Inr ap
         \<and> model_eval example_platform () = Inr (demo_model (app_demo ap)))"
proof -
  from model_loaded_before_launch [of broken_platform default_args "External ''checkpoint not found''"]
    load_broken
  have b: "(main broken_platform default_args :: py_error + (unit, unit, unit) app)
     = Inl (External ''checkpoint not found'')"
    by blast
  from main_example obtain ap where
    ap: "(main example_platform default_args :: py_error + (unit, unit, unit) app) = Inr ap"
    by blast
  from model_loaded_before_launch [of example_platform default_args _ ap] ap
  have "\<exists>m2. model_eval example_platform m2 = Inr (demo_model (app_demo ap))"
    by blast
  then have "model_eval example_platform () = Inr (demo_model (app_demo ap))"
    by simp
  with b ap show ?thesis by blast
qed

text \<open>
  C2 fails on the code: with \<^verbatim>\<open>sam2\<close> installed and no \<^verbatim>\<open>--sam-config-file\<close>,
  there is no segmentation predictor and the checkbox is visible all the same.
\<close>

theorem segmentation_control_shown_without_predictor:
  assumes "SAM2_AVAILABLE plat" and "sam_config_file a = None"
    and "main plat a = Inr (ap :: ('img, 'model, 'sam) app)"
  shows "sam_predictor (app_demo ap) = None
         \<and> visible (app_blocks ap With_segmentation) = Some True"
proof -
  from assms(2) have "load_sam_predictor plat a = Inr None"
    by (simp add: load_sam_predictor_def)
  with assms(1) main_Inr [OF assms(3)] show ?thesis
    by (auto simp: no_args_def)
qed

text \<open>
  C2 at the default command line on a machine with \<^verbatim>\<open>sam2\<close> installed.
\<close>

theorem segmentation_control_shown_without_predictor_witness:
  "SAM2_AVAILABLE example_platform \<and> sam_config_file default_args = None
   \<and> (\<exists>ap. (main example_platform default_args :: py_error + (unit, unit, unit) app) = Inr ap
         \<and> sam_predictor (app_demo ap) = None
         \<and> visible (app_blocks ap With_segmentation) = Some True)"
proof -
  have h1: "SAM2_AVAILABLE example_platform" by (simp add: example_platform_def)
  have h2: "sam_config_file default_args = None" by (simp add: default_args_def)
  from main_example obtain ap where
    ap: "(main example_platform default_args :: py_error + (unit, unit, unit) app) = Inr ap"
    by blast
  from segmentation_control_shown_without_predictor [OF h1 h2 ap] h1 h2 ap
  show ?thesis by blast
qed

text \<open>
  C10. The value of \<^verbatim>\<open>--confidence-threshold\<close> changes nothing of what the script
  builds; the slider starts at 0.5 and the clear action sets it to 0.5.
\<close>

theorem threshold_not_taken_from_flag:
  "(main plat (a\<lparr>confidence_threshold := t\<rparr>) :: py_error + ('img, 'model, 'sam) app) = main plat a
   \<and> (main plat a = Inr (ap :: ('img, 'model, 'sam) app) \<longrightarrow>
        shown (startup_state (app_blocks ap)) Score_thr = GNum (1 / 2)
        \<and> shown (clear_click ap st) Score_thr = GNum (1 / 2))"
proof (intro conjI impI)
  have "setup_cfg plat (a\<lparr>confidence_threshold := t\<rparr>) = setup_cfg plat a"
    by (simp add: setup_cfg_def split: sum.splits)
  then have m: "load_detection_model plat (a\<lparr>confidence_threshold := t\<rparr>)
                  = load_detection_model plat a"
    by (simp add: load_detection_model_def)
  have s: "load_sam_predictor plat (a\<lparr>confidence_threshold := t\<rparr>) = load_sam_predictor plat a"
    by (simp add: load_sam_predictor_def split: option.splits)
  show "(main plat (a\<lparr>confidence_threshold := t\<rparr>) :: py_error + ('img, 'model, 'sam) app) = main plat a"
    by (simp add: main_def m s split: sum.splits)
next
  assume ap: "main plat a = Inr ap"
  then obtain s coco where b: "app_blocks ap = blocks s coco"
    using main_Inr [OF ap] by auto
  show "shown (startup_state (app_blocks ap)) Score_thr = GNum (1 / 2)"
    by (simp add: startup_state_def b no_args_def)
  show "shown (clear_click ap st) Score_thr = GNum (1 / 2)"
    by (simp add: clear_click_shown [OF b])
qed

text \<open>
  C10 with \<^verbatim>\<open>--confidence-threshold 0.3\<close>.
\<close>

theorem threshold_not_taken_from_flag_witness:
  "\<exists>ap. (main example_platform (default_args\<lparr>confidence_threshold := 3 / 10\<rparr>)
            :: py_error + (unit, unit, unit) app) = Inr ap
     \<and> shown (startup_state (app_blocks ap)) Score_thr = GNum (1 / 2)
     \<and> shown (clear_click ap after_request) Score_thr = GNum (1 / 2)"
proof -
  from main_example obtain ap where
    ap: "(main example_platform default_args :: py_error + (unit, unit, unit) app) = Inr ap"
    by blast
  from threshold_not_taken_from_flag
         [where plat = example_platform and a = default_args and t = "3 / 10" and ap = ap
            and st = after_request] ap
  show ?thesis by auto
qed

text \<open>
  C3 fails on the code: the clear action empties the image, restores the default category
  text and the threshold 0.5, and runs no inference; for the records and for the
  segmentation checkbox its function returns the component objects, not values, so what
  the two show stays as it was.
\<close>

theorem clear_leaves_results_and_toggle:
  assumes "main plat a = Inr (ap :: ('img, 'model, 'sam) app)"
  shows "(clear_fn (coco_categories ap) :: 'img gr_value list) ! 3 = GComponent Json_results
         \<and> (clear_fn (coco_categories ap) :: 'img gr_value list) ! 4 = GComponent With_segmentation
         \<and> shown (clear_click ap st) Image = GNone
         \<and> shown (clear_click ap st) Input_text = GStr (coco_categories ap)
         \<and> shown (clear_click ap st) Score_thr = GNum (1 / 2)
         \<and> shown (clear_click ap st) Json_results = shown st Json_results
         \<and> shown (clear_click ap st) With_segmentation = shown st With_segmentation
         \<and> inference_calls (clear_click ap st) = inference_calls st"
proof -
  from main_Inr [OF assms] obtain s coco where b: "app_blocks ap = blocks s coco"
    by auto
  show ?thesis
    by (simp add: clear_click_shown [OF b] clear_click_calls clear_fn_def)
qed

text \<open>
  C3 after a request with segmentation ticked: the records stay displayed and the checkbox
  stays ticked, where at startup there are no records and the checkbox is unticked.
\<close>

theorem clear_leaves_results_and_toggle_witness:
  "\<exists>ap. (main example_platform default_args :: py_error + (unit, unit, unit) app) = Inr ap
     \<and> shown (clear_click ap after_request) Json_results = GJson [[''category_id'' \<mapsto> JInt 0]]
     \<and> shown (clear_click ap after_request) With_segmentation = GBool True
     \<and> shown (startup_state (app_blocks ap)) Json_results = GNone
     \<and> shown (startup_state (app_blocks ap)) With_segmentation = GBool False"
proof -
  from main_example obtain ap where
    ap: "(main example_platform default_args :: py_error + (unit, unit, unit) app) = Inr ap"
    by blast
  from main_Inr [OF ap] obtain s coco where b: "app_blocks ap = blocks s coco"
    by auto
  from clear_leaves_results_and_toggle [OF ap, of after_request]
  have "shown (clear_click ap after_request) Json_results = GJson [[''category_id'' \<mapsto> JInt 0]]
     \<and> shown (clear_click ap after_request) With_segmentation = GBool True"
    by (simp add: after_request_def)
  moreover have "shown (startup_state (app_blocks ap)) Json_results = GNone
     \<and> shown (startup_state (app_blocks ap)) With_segmentation = GBool False"
    by (simp add: startup_state_def b no_args_def)
  ultimately show ?thesis using ap by blast
qed

end
